theory Spec2Isabelle
  imports Complex_Main
begin

section \<open>Python values used by the services\<close>

text \<open>
  A \<^verbatim>\<open>datetime\<close> is a count of microseconds, a \<^verbatim>\<open>timedelta\<close> a
  difference of two of them; \<^verbatim>\<open>total_seconds()\<close> divides by one million. In
  the alert service a float (a response time, a confidence score) is the real number
  it stands for, without rounding.
\<close>

type_synonym datetime = int
type_synonym timedelta = int

definition timedelta_seconds :: "int \<Rightarrow> timedelta" where
  "timedelta_seconds s = s * 1000000"

definition timedelta_days :: "int \<Rightarrow> timedelta" where
  "timedelta_days d = d * 86400 * 1000000"

definition total_seconds :: "timedelta \<Rightarrow> real" where
  "total_seconds d = real_of_int d / 1000000"

text \<open>
  In the biometric service the confidences decide the outcome, so its floats are
  doubles: real numbers on which every arithmetic operation gives the exact result
  rounded to the nearest double, ties to the even mantissa (IEEE 754 binary64, 53 bits
  of mantissa, smallest exponent -1022; infinities and NaN are not modelled).
  \<open>binade k 0 x\<close> is the exponent \<open>e\<close> with \<open>2\<^sup>e \<le> x < 2\<^sup>e\<^sup>+\<^sup>1\<close>, found in at
  most \<open>k\<close> steps from 0. A float literal such as \<^verbatim>\<open>0.7\<close> is
  \<open>round_double 0.7\<close>.
\<close>

definition round_even :: "real \<Rightarrow> int" where
  "round_even q =
     (let n = \<lfloor>q\<rfloor>; f = q - of_int n in
      if f < 1 / 2 then n
      else if f > 1 / 2 then n + 1
      else if even n then n else n + 1)"

fun binade :: "nat \<Rightarrow> int \<Rightarrow> real \<Rightarrow> int" where
  "binade 0 e x = e"
| "binade (Suc k) e x =
     (if x < 2 powi e then binade k (e - 1) x
      else if 2 powi (e + 1) \<le> x then binade k (e + 1) x
      else e)"

definition round_double :: "real \<Rightarrow> real" where
  "round_double x =
     (if x = 0 then 0
      else
        (let e = max (- 1022) (binade 1100 0 \<bar>x\<bar>);
             ulp = 2 powi (e - 52)
         in sgn x * of_int (round_even (\<bar>x\<bar> / ulp)) * ulp))"

text \<open>
  A \<^verbatim>\<open>dict\<close> keeps insertion order: an association list in which assignment to
  a present key replaces the value in place and assignment to a new key appends.
\<close>

type_synonym ('k, 'v) dict = "('k \<times> 'v) list"

definition dict_get :: "('k, 'v) dict \<Rightarrow> 'k \<Rightarrow> 'v option" where
  "dict_get d k = map_of d k"

fun dict_set :: "('k, 'v) dict \<Rightarrow> 'k \<Rightarrow> 'v \<Rightarrow> ('k, 'v) dict" where
  "dict_set [] k v = [(k, v)]"
| "dict_set ((k', v') # d) k v =
     (if k' = k then (k, v) # d else (k', v') # dict_set d k v)"

definition dict_del :: "('k, 'v) dict \<Rightarrow> 'k \<Rightarrow> ('k, 'v) dict" where
  "dict_del d k = filter (\<lambda>kv. fst kv \<noteq> k) d"

definition dict_values :: "('k, 'v) dict \<Rightarrow> 'v list" where
  "dict_values d = map snd d"

definition dict_keys :: "('k, 'v) dict \<Rightarrow> 'k list" where
  "dict_keys d = map fst d"

text \<open>\<^verbatim>\<open>str(n)\<close> for an int, as the f-string of the cooldown key formats it.\<close>

fun str_nat :: "nat \<Rightarrow> string" where
  "str_nat n =
     (if n < 10 then [''0123456789'' ! n]
      else str_nat (n div 10) @ [''0123456789'' ! (n mod 10)])"

declare str_nat.simps [simp del]

definition str_int :: "int \<Rightarrow> string" where
  "str_int i = (if i < 0 then CHR ''-'' # str_nat (nat (- i)) else str_nat (nat i))"

definition str_opt_int :: "int option \<Rightarrow> string" where
  "str_opt_int x = (case x of None \<Rightarrow> ''None'' | Some i \<Rightarrow> str_int i)"

definition str_opt_str :: "string option \<Rightarrow> string" where
  "str_opt_str x = (case x of None \<Rightarrow> ''None'' | Some s \<Rightarrow> s)"

section \<open>Alerts (app/services/alert\_service.py)\<close>

text \<open>
  The AI-analysis payload is a dict; only its \<^verbatim>\<open>confidence_scores\<close> entry is
  read by the service (\<open>None\<close>: the key is absent). The other payloads are opaque
  values of type \<open>'j\<close>.
\<close>

record 'j ai_payload =
  confidence_scores :: "(string, real) dict option"
  other_entries :: "'j"

text \<open>
  The fields of an alert, as \<^verbatim>\<open>AlertResponse\<close> in app/api/v1/alerts.py lists
  them.
\<close>

record 'j alert =
  id' :: int
  alert_type :: string
  severity :: string
  status :: string
  title :: string
  description :: "string option"
  confidence_score :: "real option"
  camera_id :: "int option"
  location :: "string option"
  coordinates :: "'j option"
  detected_objects :: "'j option"
  biometric_data :: "'j option"
  ai_analysis :: "'j ai_payload option"
  image_path :: "string option"
  video_path :: "string option"
  user_id :: "int option"
  acknowledged_at :: "datetime option"
  resolved_at :: "datetime option"
  response_time :: "real option"
  email_sent :: bool
  sms_sent :: bool
  webhook_sent :: bool
  created_at :: datetime
  updated_at :: "datetime option"

text \<open>The keyword arguments of \<^verbatim>\<open>create_alert\<close> (\<^verbatim>\<open>AlertCreateRequest\<close>).\<close>

record 'j alert_create =
  new_alert_type :: string
  new_severity :: string
  new_title :: string
  new_description :: "string option"
  new_camera_id :: "int option"
  new_location :: "string option"
  new_coordinates :: "'j option"
  new_detected_objects :: "'j option"
  new_biometric_data :: "'j option"
  new_ai_analysis :: "'j ai_payload option"
  new_image_path :: "string option"
  new_video_path :: "string option"

text \<open>
  Modelled from the spec: the constructor of the \<^verbatim>\<open>Alert\<close> class
  (app/models/alert.py), which is not among the sources. A new alert has
  status \<^verbatim>\<open>active\<close>, \<open>created_at\<close> the time of its creation, no acknowledging
  or resolving actor, no acknowledgement, resolution or response time, and its three
  delivery flags unset. The id is assigned by the service afterwards.
\<close>

definition Alert :: "datetime \<Rightarrow> 'j alert_create \<Rightarrow> 'j alert" where
  "Alert now r =
     \<lparr> id' = 0, alert_type = new_alert_type r, severity = new_severity r,
       status = ''active'', title = new_title r, description = new_description r,
       confidence_score = None, camera_id = new_camera_id r, location = new_location r,
       coordinates = new_coordinates r, detected_objects = new_detected_objects r,
       biometric_data = new_biometric_data r, ai_analysis = new_ai_analysis r,
       image_path = new_image_path r, video_path = new_video_path r,
       user_id = None, acknowledged_at = None, resolved_at = None,
       response_time = None, email_sent = False, sms_sent = False,
       webhook_sent = False, created_at = now, updated_at = None \<rparr>"

text \<open>The two dicts of \<^verbatim>\<open>AlertService\<close>.\<close>

record 'j alert_service =
  alert_cooldowns :: "(string, datetime) dict"
  active_alerts :: "(int, 'j alert) dict"

definition init_service :: "'j alert_service" where
  "init_service = \<lparr> alert_cooldowns = [], active_alerts = [] \<rparr>"

text \<open>
  What the notification service reports for one alert: for each channel \<open>None\<close> when
  the channel is disabled or is not reached (an exception in
  \<^verbatim>\<open>_send_notifications\<close> is caught and logged), else the delivered flag.
\<close>

record delivery =
  email_result :: "bool option"
  sms_result :: "bool option"
  webhook_result :: "bool option"

definition send_notifications :: "delivery \<Rightarrow> 'j alert \<Rightarrow> 'j alert" where
  "send_notifications d a =
     a\<lparr> email_sent := (case email_result d of None \<Rightarrow> email_sent a | Some b \<Rightarrow> b),
        sms_sent := (case sms_result d of None \<Rightarrow> sms_sent a | Some b \<Rightarrow> b),
        webhook_sent := (case webhook_result d of None \<Rightarrow> webhook_sent a | Some b \<Rightarrow> b) \<rparr>"

definition cooldown_key :: "string \<Rightarrow> int option \<Rightarrow> string option \<Rightarrow> string" where
  "cooldown_key ty cam loc = ty @ ''_'' @ str_opt_int cam @ ''_'' @ str_opt_str loc"

text \<open>
  \<^verbatim>\<open>_is_in_cooldown\<close>; \<open>cooldown\<close> is \<^verbatim>\<open>settings.ALERT_COOLDOWN\<close>
  (seconds) and \<open>now\<close> the clock reading of the call.
\<close>

definition is_in_cooldown :: "int \<Rightarrow> datetime \<Rightarrow> 'j alert_service \<Rightarrow> string \<Rightarrow> bool" where
  "is_in_cooldown cooldown now svc key =
     (case dict_get (alert_cooldowns svc) key of
        None \<Rightarrow> False
      | Some last_alert_time \<Rightarrow> now - last_alert_time < timedelta_seconds cooldown)"

definition set_confidence :: "'j alert \<Rightarrow> 'j alert" where
  "set_confidence a =
     (case ai_analysis a of
        None \<Rightarrow> a
      | Some p \<Rightarrow>
          (case confidence_scores p of
             None \<Rightarrow> a
           | Some scores \<Rightarrow>
               a\<lparr> confidence_score :=
                    Some (if scores = [] then 0 else Max (set (dict_values scores))) \<rparr>))"

text \<open>
  \<^verbatim>\<open>create_alert\<close>. The three clock readings of one call are arguments:
  \<open>t_check\<close> in the cooldown check, \<open>t_new\<close> when the alert object is built,
  \<open>t_stamp\<close> when the cooldown is set. The result is the returned alert
  (\<open>None\<close> when the call is suppressed) and the service afterwards.
\<close>

definition create_alert ::
  "int \<Rightarrow> datetime \<Rightarrow> datetime \<Rightarrow> datetime \<Rightarrow> delivery \<Rightarrow> 'j alert_service \<Rightarrow> 'j alert_create
     \<Rightarrow> 'j alert option \<times> 'j alert_service" where
  "create_alert cooldown t_check t_new t_stamp dlv svc r =
     (let key = cooldown_key (new_alert_type r) (new_camera_id r) (new_location r) in
      if is_in_cooldown cooldown t_check svc key then (None, svc)
      else
        (let a0 = set_confidence (Alert t_new r);
             a1 = a0\<lparr> id' := int (length (active_alerts svc)) + 1 \<rparr>;
             a2 = send_notifications dlv a1
         in (Some a2,
             svc\<lparr> active_alerts := dict_set (active_alerts svc) (id' a1) a2,
                  alert_cooldowns := dict_set (alert_cooldowns svc) key t_stamp \<rparr>)))"

text \<open>
  \<^verbatim>\<open>acknowledge_alert\<close>; \<open>now\<close> is the clock reading of the call. The alert
  object is changed in place, so it keeps its position in the dict.
\<close>

definition acknowledge_alert ::
  "datetime \<Rightarrow> 'j alert_service \<Rightarrow> int \<Rightarrow> int \<Rightarrow> bool \<times> 'j alert_service" where
  "acknowledge_alert now svc alert_id uid =
     (case dict_get (active_alerts svc) alert_id of
        None \<Rightarrow> (False, svc)
      | Some a \<Rightarrow>
          if status a = ''acknowledged'' then (True, svc)
          else
            (True,
             svc\<lparr> active_alerts := dict_set (active_alerts svc) alert_id
                    (a\<lparr> status := ''acknowledged'', user_id := Some uid,
                       acknowledged_at := Some now,
                       response_time := Some (total_seconds (now - created_at a)) \<rparr>) \<rparr>))"

definition resolve_alert ::
  "datetime \<Rightarrow> 'j alert_service \<Rightarrow> int \<Rightarrow> int \<Rightarrow> bool \<times> 'j alert_service" where
  "resolve_alert now svc alert_id uid =
     (case dict_get (active_alerts svc) alert_id of
        None \<Rightarrow> (False, svc)
      | Some a \<Rightarrow>
          if status a = ''resolved'' then (True, svc)
          else
            (True,
             svc\<lparr> active_alerts := dict_set (active_alerts svc) alert_id
                    (a\<lparr> status := ''resolved'', user_id := Some uid,
                       resolved_at := Some now,
                       response_time :=
                         (case acknowledged_at a of
                            Some t_ack \<Rightarrow> Some (total_seconds (now - t_ack))
                          | None \<Rightarrow> Some (total_seconds (now - created_at a))) \<rparr>) \<rparr>))"

text \<open>
  The keyword arguments of \<^verbatim>\<open>update_alert\<close>, in the order given. The ten
  allowed fields carry the value to assign; \<open>Other_field\<close> is any other keyword, which
  the loop skips.
\<close>

datatype 'j alert_field =
    Description "string option"
  | Severity string
  | Status string
  | Location "string option"
  | Coordinates "'j option"
  | Detected_objects "'j option"
  | Biometric_data "'j option"
  | Ai_analysis "'j ai_payload option"
  | Image_path "string option"
  | Video_path "string option"
  | Other_field string

fun setattr :: "'j alert \<Rightarrow> 'j alert_field \<Rightarrow> 'j alert" where
  "setattr a (Description v) = a\<lparr> description := v \<rparr>"
| "setattr a (Severity v) = a\<lparr> severity := v \<rparr>"
| "setattr a (Status v) = a\<lparr> status := v \<rparr>"
| "setattr a (Location v) = a\<lparr> location := v \<rparr>"
| "setattr a (Coordinates v) = a\<lparr> coordinates := v \<rparr>"
| "setattr a (Detected_objects v) = a\<lparr> detected_objects := v \<rparr>"
| "setattr a (Biometric_data v) = a\<lparr> biometric_data := v \<rparr>"
| "setattr a (Ai_analysis v) = a\<lparr> ai_analysis := v \<rparr>"
| "setattr a (Image_path v) = a\<lparr> image_path := v \<rparr>"
| "setattr a (Video_path v) = a\<lparr> video_path := v \<rparr>"
| "setattr a (Other_field name) = a"

definition update_alert ::
  "datetime \<Rightarrow> 'j alert_service \<Rightarrow> int \<Rightarrow> 'j alert_field list \<Rightarrow> bool \<times> 'j alert_service" where
  "update_alert now svc alert_id kwargs =
     (case dict_get (active_alerts svc) alert_id of
        None \<Rightarrow> (False, svc)
      | Some a \<Rightarrow>
          (True,
           svc\<lparr> active_alerts := dict_set (active_alerts svc) alert_id
                  ((foldl setattr a kwargs)\<lparr> updated_at := Some now \<rparr>) \<rparr>))"

text \<open>\<^verbatim>\<open>cleanup_old_alerts\<close>: the ids are collected first, then deleted.\<close>

definition alerts_to_remove :: "datetime \<Rightarrow> (int, 'j alert) dict \<Rightarrow> int list" where
  "alerts_to_remove cutoff_date d =
     dict_keys
       (filter (\<lambda>kv. status (snd kv) = ''resolved'' \<and>
                  (case resolved_at (snd kv) of None \<Rightarrow> False | Some t \<Rightarrow> t < cutoff_date)) d)"

definition cleanup_old_alerts :: "datetime \<Rightarrow> 'j alert_service \<Rightarrow> int \<Rightarrow> 'j alert_service" where
  "cleanup_old_alerts now svc retention_days =
     (let cutoff_date = now - timedelta_days retention_days in
      svc\<lparr> active_alerts :=
             foldl dict_del (active_alerts svc)
               (alerts_to_remove cutoff_date (active_alerts svc)) \<rparr>)"

text \<open>
  \<^verbatim>\<open>get_alert_statistics\<close>. Each counting loop is
  \<^verbatim>\<open>d[k] = d.get(k, 0) + 1\<close> over the selected alerts.
\<close>

definition bump :: "(string, int) dict \<Rightarrow> string \<Rightarrow> (string, int) dict" where
  "bump d k = dict_set d k ((case dict_get d k of None \<Rightarrow> 0 | Some c \<Rightarrow> c) + 1)"

definition count_by :: "('a \<Rightarrow> string) \<Rightarrow> 'a list \<Rightarrow> (string, int) dict" where
  "count_by f xs = foldl (\<lambda>d x. bump d (f x)) [] xs"

record statistics =
  total_alerts :: int
  by_severity :: "(string, int) dict"
  by_type :: "(string, int) dict"
  by_status :: "(string, int) dict"
  by_camera :: "(string, int) dict"
  response_times :: "real list"
  average_response_time :: real
  unresolved_alerts :: int
  date_range :: "datetime \<times> datetime"

text \<open>
  \<open>now1\<close> and \<open>now2\<close> are the clock readings taken for a missing start and a missing
  end of the range. A camera id counts when it is set and not 0, a response time when
  it is set and not 0.0 (Python truth values).
\<close>

definition get_alert_statistics ::
  "datetime \<Rightarrow> datetime \<Rightarrow> 'j alert_service \<Rightarrow> datetime option \<Rightarrow> datetime option \<Rightarrow> statistics" where
  "get_alert_statistics now1 now2 svc start_date end_date =
     (let start = (case start_date of None \<Rightarrow> now1 - timedelta_days 30 | Some t \<Rightarrow> t);
          end' = (case end_date of None \<Rightarrow> now2 | Some t \<Rightarrow> t);
          alerts = filter (\<lambda>a. start \<le> created_at a \<and> created_at a \<le> end')
                     (dict_values (active_alerts svc));
          with_camera = filter (\<lambda>a. camera_id a \<noteq> None \<and> camera_id a \<noteq> Some 0) alerts;
          times = concat (map (\<lambda>a. case response_time a of
                                       None \<Rightarrow> []
                                     | Some t \<Rightarrow> if t = 0 then [] else [t]) alerts)
      in \<lparr> total_alerts = int (length alerts),
           by_severity = count_by severity alerts,
           by_type = count_by alert_type alerts,
           by_status = count_by status alerts,
           by_camera = count_by (\<lambda>a. str_opt_int (camera_id a)) with_camera,
           response_times = times,
           average_response_time =
             (if times = [] then 0 else sum_list times / real (length times)),
           unresolved_alerts = int (length (filter (\<lambda>a. status a = ''active'') alerts)),
           date_range = (start, end') \<rparr>)"

section \<open>Biometric authentication (app/services/biometric\_service.py)\<close>

text \<open>
  The result dict of one modality. A field is \<open>None\<close> when the dict has no such
  key. The \<^verbatim>\<open>user_id\<close> entry can hold \<^verbatim>\<open>None\<close>: \<open>auth_user_id\<close> is
  \<open>None\<close> without the key, \<open>Some None\<close> when the key holds \<^verbatim>\<open>None\<close>, and
  \<open>Some (Some u)\<close> when it holds the id \<open>u\<close>.
\<close>

record auth_result =
  success :: bool
  auth_user_id :: "int option option"
  confidence :: "real option"
  distance :: "real option"
  auth_method :: "string option"
  auth_error :: "string option"

text \<open>
  The face library is external: its three functions are fields of a record, over
  abstract images \<open>'img\<close>, face locations \<open>'loc\<close> and encodings \<open>'enc\<close>.
\<close>

record ('img, 'loc, 'enc) face_recognition =
  face_locations :: "'img \<Rightarrow> 'loc list"
  face_encodings :: "'img \<Rightarrow> 'loc list \<Rightarrow> 'enc list"
  face_distance :: "'enc \<Rightarrow> 'enc \<Rightarrow> real"

text \<open>
  \<^verbatim>\<open>if user_id and user_id in cache\<close>: the id is given, is not 0, and is a key
  of the cache.
\<close>

definition verify_against :: "(int, 'v) dict \<Rightarrow> int option \<Rightarrow> (int \<times> 'v) option" where
  "verify_against cache uid =
     (case uid of
        None \<Rightarrow> None
      | Some u \<Rightarrow>
          if u = 0 then None
          else (case dict_get cache u of None \<Rightarrow> None | Some t \<Rightarrow> Some (u, t)))"

text \<open>The search loop of \<^verbatim>\<open>authenticate_face\<close> over the cached encodings.\<close>

definition best_face ::
  "('enc \<Rightarrow> 'enc \<Rightarrow> real) \<Rightarrow> real \<Rightarrow> 'enc \<Rightarrow> (int, 'enc) dict \<Rightarrow> int option \<times> real" where
  "best_face fdist tolerance unknown cache =
     foldl (\<lambda>(best_match, best_confidence) (stored_user_id, stored_encoding).
              let d = fdist stored_encoding unknown; c = round_double (1 - d) in
              if d \<le> tolerance \<and> c > best_confidence then (Some stored_user_id, c)
              else (best_match, best_confidence))
       (None, 0) cache"

text \<open>
  \<^verbatim>\<open>authenticate_face\<close>; \<open>tolerance\<close> is
  \<^verbatim>\<open>settings.FACE_RECOGNITION_TOLERANCE\<close>.
\<close>

definition authenticate_face ::
  "('img, 'loc, 'enc) face_recognition \<Rightarrow> real \<Rightarrow> (int, 'enc) dict \<Rightarrow> 'img \<Rightarrow> int option
     \<Rightarrow> auth_result" where
  "authenticate_face lib tolerance cache face_image uid =
     (let locs = face_locations lib face_image in
      if locs = [] then
        \<lparr> success = False, auth_user_id = None, confidence = None, distance = None,
          auth_method = None, auth_error = Some ''No face detected in image'' \<rparr>
      else
        (case face_encodings lib face_image locs of
           [] \<Rightarrow>
             \<lparr> success = False, auth_user_id = None, confidence = None, distance = None,
               auth_method = None, auth_error = Some ''Could not extract face features'' \<rparr>
         | unknown # rest \<Rightarrow>
             (case verify_against cache uid of
                Some (u, known) \<Rightarrow>
                  (let d = face_distance lib known unknown;
                       is_match = (d \<le> tolerance)
                   in \<lparr> success = is_match,
                        auth_user_id = Some (if is_match then Some u else None),
                        confidence = Some (round_double (1 - d)), distance = Some d,
                        auth_method = None, auth_error = None \<rparr>)
              | None \<Rightarrow>
                  (case best_face (face_distance lib) tolerance unknown cache of
                     (best_match, best_confidence) \<Rightarrow>
                       if best_match \<noteq> None \<and> best_match \<noteq> Some 0 then
                         \<lparr> success = True, auth_user_id = Some best_match,
                           confidence = Some best_confidence, distance = None,
                           auth_method = Some ''face_recognition'', auth_error = None \<rparr>
                       else
                         \<lparr> success = False, auth_user_id = None, confidence = Some 0,
                           distance = None, auth_method = None,
                           auth_error = Some ''Face not recognized'' \<rparr>))))"

text \<open>
  \<^verbatim>\<open>authenticate_fingerprint\<close>; \<open>sha256\<close> stands for
  \<^verbatim>\<open>hashlib.sha256(data).hexdigest()\<close>. The search returns at the first
  stored template equal to the hash.
\<close>

definition authenticate_fingerprint ::
  "('bytes \<Rightarrow> string) \<Rightarrow> (int, string) dict \<Rightarrow> 'bytes \<Rightarrow> int option \<Rightarrow> auth_result" where
  "authenticate_fingerprint sha256 cache fingerprint_data uid =
     (let fingerprint_hash = sha256 fingerprint_data in
      case verify_against cache uid of
        Some (u, stored_hash) \<Rightarrow>
          (let is_match = (fingerprint_hash = stored_hash)
           in \<lparr> success = is_match,
                auth_user_id = Some (if is_match then Some u else None),
                confidence = Some (if is_match then 1 else 0), distance = None,
                auth_method = Some ''fingerprint'', auth_error = None \<rparr>)
      | None \<Rightarrow>
          (case find (\<lambda>kv. fingerprint_hash = snd kv) cache of
             Some (stored_user_id, stored_hash) \<Rightarrow>
               \<lparr> success = True, auth_user_id = Some (Some stored_user_id),
                 confidence = Some 1,
                 distance = None, auth_method = Some ''fingerprint'', auth_error = None \<rparr>
           | None \<Rightarrow>
               \<lparr> success = False, auth_user_id = None, confidence = Some 0, distance = None,
                 auth_method = None, auth_error = Some ''Fingerprint not recognized'' \<rparr>))"

text \<open>
  \<^verbatim>\<open>authenticate_iris\<close>; \<open>tobytes\<close> stands for the image's
  \<^verbatim>\<open>tobytes()\<close>.
\<close>

definition authenticate_iris ::
  "('bytes \<Rightarrow> string) \<Rightarrow> ('img \<Rightarrow> 'bytes) \<Rightarrow> (int, string) dict \<Rightarrow> 'img \<Rightarrow> int option
     \<Rightarrow> auth_result" where
  "authenticate_iris sha256 tobytes cache iris_image uid =
     (let iris_hash = sha256 (tobytes iris_image) in
      case verify_against cache uid of
        Some (u, stored_hash) \<Rightarrow>
          (let is_match = (iris_hash = stored_hash)
           in \<lparr> success = is_match,
                auth_user_id = Some (if is_match then Some u else None),
                confidence = Some (if is_match then 1 else 0), distance = None,
                auth_method = Some ''iris'', auth_error = None \<rparr>)
      | None \<Rightarrow>
          (case find (\<lambda>kv. iris_hash = snd kv) cache of
             Some (stored_user_id, stored_hash) \<Rightarrow>
               \<lparr> success = True, auth_user_id = Some (Some stored_user_id),
                 confidence = Some 1,
                 distance = None, auth_method = Some ''iris'', auth_error = None \<rparr>
           | None \<Rightarrow>
               \<lparr> success = False, auth_user_id = None, confidence = Some 0, distance = None,
                 auth_method = None, auth_error = Some ''Iris not recognized'' \<rparr>))"

text \<open>The three template caches of \<^verbatim>\<open>BiometricService\<close>.\<close>

record 'enc biometric_service =
  face_encodings_cache :: "(int, 'enc) dict"
  fingerprint_templates_cache :: "(int, string) dict"
  iris_templates_cache :: "(int, string) dict"

text \<open>
  \<^verbatim>\<open>multi_modal_authentication\<close>. Its local variables \<^verbatim>\<open>results\<close>,
  \<^verbatim>\<open>total_confidence\<close> and \<^verbatim>\<open>authenticated_user_id\<close> are the state of
  three steps, one per modality; a step is skipped when its result is \<open>None\<close> (no
  sample, or iris recognition disabled). \<open>Inl\<close> is the dict
  \<^verbatim>\<open>{"success": False, "error": msg}\<close> of an early return or of the
  exception handler: reading the \<^verbatim>\<open>confidence\<close> or the \<^verbatim>\<open>user_id\<close> of
  a successful result that has no such key raises \<^verbatim>\<open>KeyError\<close>, whose text
  is the key in quotes.
\<close>

type_synonym fusion_state = "auth_result list \<times> real \<times> int option"

definition key_error :: "string \<Rightarrow> string" where
  "key_error k = CHR 0x27 # k @ [CHR 0x27]"

definition mismatch_error :: string where
  "mismatch_error = ''Biometric data mismatch between modalities''"

definition face_step :: "auth_result option \<Rightarrow> fusion_state \<Rightarrow> string + fusion_state" where
  "face_step r st =
     (case (r, st) of
        (None, _) \<Rightarrow> Inr st
      | (Some face_result, (results, total_confidence, authenticated_user_id)) \<Rightarrow>
          if success face_result then
            (case confidence face_result of
               None \<Rightarrow> Inl (key_error ''confidence'')
             | Some c \<Rightarrow>
                 (case auth_user_id face_result of
                    None \<Rightarrow> Inl (key_error ''user_id'')
                  | Some u \<Rightarrow>
                      Inr (results @ [face_result],
                           round_double (total_confidence + c), u)))
          else Inr (results @ [face_result], total_confidence, authenticated_user_id))"

definition fingerprint_step :: "auth_result option \<Rightarrow> fusion_state \<Rightarrow> string + fusion_state" where
  "fingerprint_step r st =
     (case (r, st) of
        (None, _) \<Rightarrow> Inr st
      | (Some fingerprint_result, (results, total_confidence, authenticated_user_id)) \<Rightarrow>
          if success fingerprint_result then
            (case confidence fingerprint_result of
               None \<Rightarrow> Inl (key_error ''confidence'')
             | Some c \<Rightarrow>
                 (case auth_user_id fingerprint_result of
                    None \<Rightarrow> Inl (key_error ''user_id'')
                  | Some u \<Rightarrow>
                      if authenticated_user_id = None then
                        Inr (results @ [fingerprint_result],
                             round_double (total_confidence + c), u)
                      else if authenticated_user_id \<noteq> u then Inl mismatch_error
                      else
                        Inr (results @ [fingerprint_result],
                             round_double (total_confidence + c), authenticated_user_id)))
          else Inr (results @ [fingerprint_result], total_confidence, authenticated_user_id))"

definition iris_step :: "auth_result option \<Rightarrow> fusion_state \<Rightarrow> string + fusion_state" where
  "iris_step r st =
     (case (r, st) of
        (None, _) \<Rightarrow> Inr st
      | (Some iris_result, (results, total_confidence, authenticated_user_id)) \<Rightarrow>
          if success iris_result then
            (case confidence iris_result of
               None \<Rightarrow> Inl (key_error ''confidence'')
             | Some c \<Rightarrow>
                 (case auth_user_id iris_result of
                    None \<Rightarrow> Inl (key_error ''user_id'')
                  | Some u \<Rightarrow>
                      if authenticated_user_id = None then
                        Inr (results @ [iris_result],
                             round_double (total_confidence + c), u)
                      else if authenticated_user_id \<noteq> u then Inl mismatch_error
                      else
                        Inr (results @ [iris_result],
                             round_double (total_confidence + c), authenticated_user_id)))
          else Inr (results @ [iris_result], total_confidence, authenticated_user_id))"

record fusion =
  fused_success :: bool
  fused_user_id :: "int option"
  fused_confidence :: real
  successful_modalities :: int
  total_modalities :: int
  detailed_results :: "auth_result list"

definition final_result :: "fusion_state \<Rightarrow> fusion" where
  "final_result st =
     (case st of
        (results, total_confidence, authenticated_user_id) \<Rightarrow>
          (let successful_authentications = int (length (filter success results));
               average_confidence =
                 (if results \<noteq> []
                  then round_double (total_confidence / real (length results)) else 0);
               is_authenticated =
                 (successful_authentications > 0 \<and>
                  average_confidence \<ge> round_double 0.7 \<and>
                  authenticated_user_id \<noteq> None)
           in \<lparr> fused_success = is_authenticated,
                fused_user_id = authenticated_user_id,
                fused_confidence = average_confidence,
                successful_modalities = successful_authentications,
                total_modalities = int (length results),
                detailed_results = results \<rparr>))"

definition multi_modal_fusion ::
  "auth_result option \<Rightarrow> auth_result option \<Rightarrow> auth_result option \<Rightarrow> string + fusion" where
  "multi_modal_fusion face_result fingerprint_result iris_result =
     (case face_step face_result ([], 0, None) of
        Inl e \<Rightarrow> Inl e
      | Inr st1 \<Rightarrow>
          (case fingerprint_step fingerprint_result st1 of
             Inl e \<Rightarrow> Inl e
           | Inr st2 \<Rightarrow>
               (case iris_step iris_result st2 of
                  Inl e \<Rightarrow> Inl e
                | Inr st3 \<Rightarrow> Inr (final_result st3))))"

text \<open>
  The method itself: each supplied sample is authenticated with the caller's
  \<open>uid\<close>, and the iris sample only when
  \<^verbatim>\<open>settings.IRIS_RECOGNITION_ENABLED\<close> holds. The authenticators change
  nothing, so their results can be taken before the steps run.
\<close>

definition multi_modal_authentication ::
  "('img, 'loc, 'enc) face_recognition \<Rightarrow> real \<Rightarrow> ('bytes \<Rightarrow> string) \<Rightarrow> ('img \<Rightarrow> 'bytes) \<Rightarrow> bool
     \<Rightarrow> 'enc biometric_service \<Rightarrow> 'img option \<Rightarrow> 'bytes option \<Rightarrow> 'img option \<Rightarrow> int option
     \<Rightarrow> string + fusion" where
  "multi_modal_authentication lib tolerance sha256 tobytes iris_enabled svc
       face_image fingerprint_data iris_image uid =
     multi_modal_fusion
       (map_option (\<lambda>i. authenticate_face lib tolerance (face_encodings_cache svc) i uid)
          face_image)
       (map_option
          (\<lambda>b. authenticate_fingerprint sha256 (fingerprint_templates_cache svc) b uid)
          fingerprint_data)
       (if iris_enabled then
          map_option
            (\<lambda>i. authenticate_iris sha256 tobytes (iris_templates_cache svc) i uid)
            iris_image
        else None)"

text \<open>The results the method was given to fuse, in the order it appends them.\<close>

definition supplied :: "auth_result option \<Rightarrow> auth_result option \<Rightarrow> auth_result option
     \<Rightarrow> auth_result list" where
  "supplied face_result fingerprint_result iris_result =
     concat (map (\<lambda>r. case r of None \<Rightarrow> [] | Some x \<Rightarrow> [x])
               [face_result, fingerprint_result, iris_result])"

text \<open>
  The success condition in the words of the specification: at least one modality
  succeeded, the mean confidence over the successful modalities is at least 0.7, and
  an identity was resolved.
\<close>

definition spec_fusion_success :: "auth_result list \<Rightarrow> int option \<Rightarrow> bool" where
  "spec_fusion_success rs identity =
     (let ok = filter success rs in
      ok \<noteq> [] \<and>
      sum_list (map (\<lambda>r. case confidence r of None \<Rightarrow> 0 | Some c \<Rightarrow> c) ok)
        / real (length ok) \<ge> 0.7 \<and>
      identity \<noteq> None)"

text \<open>\<^verbatim>\<open>register_iris\<close>: the hash of the image is stored for the user.\<close>

record registration =
  reg_success :: bool
  template :: "string option"
  quality :: "real option"
  reg_error :: "string option"

definition register_iris ::
  "('bytes \<Rightarrow> string) \<Rightarrow> ('img \<Rightarrow> 'bytes) \<Rightarrow> 'enc biometric_service \<Rightarrow> int \<Rightarrow> 'img
     \<Rightarrow> registration \<times> 'enc biometric_service" where
  "register_iris sha256 tobytes svc uid iris_image =
     (let iris_hash = sha256 (tobytes iris_image) in
      (\<lparr> reg_success = True, template = Some iris_hash, quality = Some 0.98,
         reg_error = None \<rparr>,
       svc\<lparr> iris_templates_cache := dict_set (iris_templates_cache svc) uid iris_hash \<rparr>))"

section \<open>Biometric endpoints (app/api/v1/biometric.py)\<close>

text \<open>
  An uploaded file is its content type (\<open>None\<close> when the client sent none) and the
  image \<^verbatim>\<open>cv2.imdecode\<close> makes of its bytes (\<open>None\<close> when they are no
  image). Every exception raised in an endpoint, the \<^verbatim>\<open>HTTPException\<close>s of its
  own checks included, reaches the handler at its end and leaves as status 500.
\<close>

record 'img upload =
  content_type :: "string option"
  decoded :: "'img option"

datatype 'a http = Http_500 | Http_200 'a

definition startswith :: "string \<Rightarrow> string \<Rightarrow> bool" where
  "startswith s p = (take (length p) s = p)"

text \<open>The dict of \<^verbatim>\<open>detect_liveness\<close>, an image measure outside the model.\<close>

record liveness =
  is_live :: bool
  liveness_confidence :: real
  quality_score :: "real option"

record auth_response =
  resp_success :: bool
  resp_user_id :: "int option"
  resp_confidence :: real
  resp_method :: string
  resp_error :: "string option"

definition api_authenticate_face ::
  "('img \<Rightarrow> liveness) \<Rightarrow> ('img, 'loc, 'enc) face_recognition \<Rightarrow> real \<Rightarrow> 'enc biometric_service
     \<Rightarrow> 'img upload \<Rightarrow> int option \<Rightarrow> auth_response http" where
  "api_authenticate_face detect_liveness lib tolerance svc face_image uid =
     (case content_type face_image of
        None \<Rightarrow> Http_500
      | Some ct \<Rightarrow>
          if \<not> startswith ct ''image/'' then Http_500
          else
            (case decoded face_image of
               None \<Rightarrow> Http_500
             | Some image_array \<Rightarrow>
                 if \<not> is_live (detect_liveness image_array) then
                   Http_200 \<lparr> resp_success = False, resp_user_id = None, resp_confidence = 0,
                              resp_method = ''face'',
                              resp_error = Some ''Liveness check failed'' \<rparr>
                 else
                   (let result = authenticate_face lib tolerance (face_encodings_cache svc)
                                   image_array uid
                    in Http_200 \<lparr> resp_success = success result,
                                  resp_user_id =
                                    (case auth_user_id result of None \<Rightarrow> None | Some u \<Rightarrow> u),
                                  resp_confidence =
                                    (case confidence result of None \<Rightarrow> 0 | Some c \<Rightarrow> c),
                                  resp_method = ''face'',
                                  resp_error = auth_error result \<rparr>)))"

definition api_authenticate_iris ::
  "('bytes \<Rightarrow> string) \<Rightarrow> ('img \<Rightarrow> 'bytes) \<Rightarrow> 'enc biometric_service
     \<Rightarrow> 'img upload \<Rightarrow> int option \<Rightarrow> auth_response http" where
  "api_authenticate_iris sha256 tobytes svc iris_image uid =
     (case content_type iris_image of
        None \<Rightarrow> Http_500
      | Some ct \<Rightarrow>
          if \<not> startswith ct ''image/'' then Http_500
          else
            (case decoded iris_image of
               None \<Rightarrow> Http_500
             | Some image_array \<Rightarrow>
                 (let result = authenticate_iris sha256 tobytes (iris_templates_cache svc)
                                 image_array uid
                  in Http_200 \<lparr> resp_success = success result,
                                resp_user_id =
                                  (case auth_user_id result of None \<Rightarrow> None | Some u \<Rightarrow> u),
                                resp_confidence =
                                  (case confidence result of None \<Rightarrow> 0 | Some c \<Rightarrow> c),
                                resp_method = ''iris'',
                                resp_error = auth_error result \<rparr>)))"

record current_user =
  is_admin :: bool
  cu_user_id :: int

record registration_response =
  rr_success :: bool
  rr_message :: string
  rr_template_id :: "string option"
  rr_quality_score :: "real option"
  rr_error :: "string option"

definition api_register_iris ::
  "('bytes \<Rightarrow> string) \<Rightarrow> ('img \<Rightarrow> 'bytes) \<Rightarrow> 'enc biometric_service \<Rightarrow> current_user \<Rightarrow> int
     \<Rightarrow> 'img upload \<Rightarrow> registration_response http \<times> 'enc biometric_service" where
  "api_register_iris sha256 tobytes svc cu uid iris_image =
     (if \<not> is_admin cu \<and> cu_user_id cu \<noteq> uid then (Http_500, svc)
      else
        (case content_type iris_image of
           None \<Rightarrow> (Http_500, svc)
         | Some ct \<Rightarrow>
             if \<not> startswith ct ''image/'' then (Http_500, svc)
             else
               (case decoded iris_image of
                  None \<Rightarrow> (Http_500, svc)
                | Some image_array \<Rightarrow>
                    (case register_iris sha256 tobytes svc uid image_array of
                       (result, svc') \<Rightarrow>
                         (Http_200
                            \<lparr> rr_success = reg_success result,
                              rr_message =
                                (if reg_success result then ''Iris registered successfully''
                                 else ''Iris registration failed''),
                              rr_template_id =
                                (if reg_success result then Some (str_int uid) else None),
                              rr_quality_score =
                                (case quality result of None \<Rightarrow> Some 0 | Some q \<Rightarrow> Some q),
                              rr_error = reg_error result \<rparr>,
                          svc')))))"

section \<open>Concrete inputs\<close>

text \<open>A motion alert of camera 5 in the lobby, and a run in which no channel delivers.\<close>

definition motion_lobby :: "unit alert_create" where
  "motion_lobby =
     \<lparr> new_alert_type = ''motion'', new_severity = ''medium'', new_title = ''Motion'',
       new_description = None, new_camera_id = Some 5, new_location = Some ''Lobby'',
       new_coordinates = None, new_detected_objects = None, new_biometric_data = None,
       new_ai_analysis = None, new_image_path = None, new_video_path = None \<rparr>"

text \<open>The same alert from camera 6.\<close>

definition motion_lobby_6 :: "unit alert_create" where
  "motion_lobby_6 = motion_lobby\<lparr> new_camera_id := Some 6 \<rparr>"

definition no_delivery :: delivery where
  "no_delivery = \<lparr> email_result = None, sms_result = None, webhook_result = None \<rparr>"

text \<open>
  The service after that alert was created at time 0; after it was acknowledged, and
  after it was resolved, by user 7 ten seconds later. A second motion alert, at the gate.
\<close>

definition svc_created :: "unit alert_service" where
  "svc_created = snd (create_alert 60 0 0 0 no_delivery init_service motion_lobby)"

definition svc_acknowledged :: "unit alert_service" where
  "svc_acknowledged = snd (acknowledge_alert 10000000 svc_created 1 7)"

definition svc_resolved :: "unit alert_service" where
  "svc_resolved = snd (resolve_alert 10000000 svc_created 1 7)"

definition motion_gate :: "unit alert_create" where
  "motion_gate = motion_lobby\<lparr> new_camera_id := Some 6, new_location := Some ''Gate'' \<rparr>"

text \<open>
  Both alerts created one second apart, the first resolved, and a clean-up with a
  retention of 30 days run 31 days later.
\<close>

definition svc_two :: "unit alert_service" where
  "svc_two = snd (create_alert 60 1000000 1000000 1000000 no_delivery svc_created motion_gate)"

definition svc_pruned :: "unit alert_service" where
  "svc_pruned = cleanup_old_alerts 2678400000000 (snd (resolve_alert 2000000 svc_two 1 7)) 30"

text \<open>
  A face library in which an image is a number, shows one face, and has the eighth of
  that number as its encoding; the distance of two encodings is their difference.
  User 1 has a face enrolled, user 2 a fingerprint and an iris. The hash used with
  them writes a number in decimal digits.
\<close>

definition demo_faces :: "(nat, unit, real) face_recognition" where
  "demo_faces =
     \<lparr> face_locations = (\<lambda>img. [()]),
       face_encodings = (\<lambda>img locs. [real img / 8]),
       face_distance = (\<lambda>known unknown. \<bar>known - unknown\<bar>) \<rparr>"

definition demo_biometrics :: "real biometric_service" where
  "demo_biometrics =
     \<lparr> face_encodings_cache = [(1, 0)],
       fingerprint_templates_cache = [(2, ''22'')],
       iris_templates_cache = [(2, ''22'')] \<rparr>"

text \<open>A successful result for user \<open>u\<close> with confidence \<open>c\<close>.\<close>

definition matched :: "int \<Rightarrow> real \<Rightarrow> auth_result" where
  "matched u c =
     \<lparr> success = True, auth_user_id = Some (Some u), confidence = Some c,
       distance = None, auth_method = None, auth_error = None \<rparr>"

text \<open>An uploaded image, and a liveness check that rejects every image.\<close>

definition png :: "nat \<Rightarrow> nat upload" where
  "png img = \<lparr> content_type = Some ''image/png'', decoded = Some img \<rparr>"

definition never_live :: "nat \<Rightarrow> liveness" where
  "never_live img = \<lparr> is_live = False, liveness_confidence = 0, quality_score = Some 0 \<rparr>"

section \<open>Auxiliary notions of the statements\<close>

text \<open>The status that a list of keyword arguments assigns: its last \<open>Status\<close>, if any.\<close>

fun assigned_status :: "'j alert_field list \<Rightarrow> string option" where
  "assigned_status [] = None"
| "assigned_status (f # fs) =
     (case assigned_status fs of
        Some v \<Rightarrow> Some v
      | None \<Rightarrow> (case f of Status v \<Rightarrow> Some v | _ \<Rightarrow> None))"

text \<open>Reading a decimal numeral back, to tell the printed ids apart.\<close>

definition digit_val :: "char \<Rightarrow> nat" where
  "digit_val c = of_char c - 48"

definition nat_of_digits :: "string \<Rightarrow> nat" where
  "nat_of_digits s = foldl (\<lambda>a c. 10 * a + digit_val c) 0 s"

text \<open>The confidence of a result, 0 when it has none.\<close>

definition conf_of :: "auth_result \<Rightarrow> real" where
  "conf_of r = (case confidence r of None \<Rightarrow> 0 | Some c \<Rightarrow> c)"

text \<open>
  The float sum that \<^verbatim>\<open>total_confidence += c\<close> accumulates over a list
  of confidences, starting from \<open>t\<close>.
\<close>

definition float_sum :: "real \<Rightarrow> real list \<Rightarrow> real" where
  "float_sum t cs = foldl (\<lambda>t c. round_double (t + c)) t cs"

text \<open>
  The three steps of the fusion as one loop over the supplied results: every step acts
  as the fingerprint step does (see \<open>fusion_as_loop\<close> below).
\<close>

fun fuse_steps :: "auth_result list \<Rightarrow> fusion_state \<Rightarrow> string + fusion_state" where
  "fuse_steps [] st = Inr st"
| "fuse_steps (r # rs) st =
     (case fingerprint_step (Some r) st of Inl e \<Rightarrow> Inl e | Inr st' \<Rightarrow> fuse_steps rs st')"

text \<open>
  The results that the authenticators give for the samples of one call of
  \<^verbatim>\<open>multi_modal_authentication\<close>, in the order of its steps (an early
  return skips the steps after it).
\<close>

definition attempted ::
  "('img, 'loc, 'enc) face_recognition \<Rightarrow> real \<Rightarrow> ('bytes \<Rightarrow> string) \<Rightarrow> ('img \<Rightarrow> 'bytes) \<Rightarrow> bool
     \<Rightarrow> 'enc biometric_service \<Rightarrow> 'img option \<Rightarrow> 'bytes option \<Rightarrow> 'img option \<Rightarrow> int option
     \<Rightarrow> auth_result list" where
  "attempted lib tolerance sha256 tobytes iris_enabled svc
       face_image fingerprint_data iris_image uid =
     supplied
       (map_option (\<lambda>i. authenticate_face lib tolerance (face_encodings_cache svc) i uid)
          face_image)
       (map_option
          (\<lambda>b. authenticate_fingerprint sha256 (fingerprint_templates_cache svc) b uid)
          fingerprint_data)
       (if iris_enabled then
          map_option
            (\<lambda>i. authenticate_iris sha256 tobytes (iris_templates_cache svc) i uid)
            iris_image
        else None)"

section \<open>Dictionaries\<close>

lemma dict_get_set: "dict_get (dict_set d k v) k' = (if k' = k then Some v else dict_get d k')"
  by (induction d) (auto simp: dict_get_def)

section \<open>The cooldown key\<close>

lemma digit_cases: "d < 10 \<Longrightarrow> d \<in> {0, 1, 2, 3, 4, 5, 6, 7, 8, 9::nat}"
  by auto

lemma digit_val_nth: "d < 10 \<Longrightarrow> digit_val (''0123456789'' ! d) = d"
  using digit_cases [of d] by (auto simp: digit_val_def)

lemma digit_nth_in: "d < 10 \<Longrightarrow> ''0123456789'' ! d \<in> set ''0123456789''"
  by (rule nth_mem) simp

lemma nat_of_digits_str_nat: "nat_of_digits (str_nat n) = n"
proof (induction n rule: str_nat.induct)
  case (1 n)
  show ?case
  proof (cases "n < 10")
    case True
    then show ?thesis
      by (subst str_nat.simps) (simp add: nat_of_digits_def digit_val_nth)
  next
    case False
    with 1 have "nat_of_digits (str_nat (n div 10)) = n div 10" by simp
    with False show ?thesis
      by (subst str_nat.simps) (simp add: nat_of_digits_def digit_val_nth)
  qed
qed

lemma str_nat_inj: "str_nat m = str_nat n \<Longrightarrow> m = n"
  by (metis nat_of_digits_str_nat)

lemma str_nat_digits: "set (str_nat n) \<subseteq> set ''0123456789''"
proof (induction n rule: str_nat.induct)
  case (1 n)
  show ?case
  proof (cases "n < 10")
    case True
    then show ?thesis
      using digit_nth_in [of n] by (subst str_nat.simps) simp
  next
    case False
    with 1 have "set (str_nat (n div 10)) \<subseteq> set ''0123456789''" by simp
    moreover have "''0123456789'' ! (n mod 10) \<in> set ''0123456789''"
      by (rule digit_nth_in) simp
    ultimately show ?thesis
      using False by (subst str_nat.simps) simp
  qed
qed

lemma str_int_inj: "str_int i = str_int j \<Longrightarrow> i = j"
proof -
  assume eq: "str_int i = str_int j"
  have nd: "CHR ''-'' \<notin> set (str_nat n)" for n
    using str_nat_digits [of n] by auto
  have hd_not: "str_nat n \<noteq> CHR ''-'' # s" for n s
    using nd [of n] by (metis list.set_intros(1))
  show ?thesis
  proof (cases "i < 0")
    case neg_i: True
    show ?thesis
    proof (cases "j < 0")
      case True
      with neg_i eq have "str_nat (nat (- i)) = str_nat (nat (- j))"
        by (simp add: str_int_def)
      then have "nat (- i) = nat (- j)" by (rule str_nat_inj)
      with neg_i True show ?thesis by simp
    next
      case False
      with neg_i eq have "str_nat (nat j) = CHR ''-'' # str_nat (nat (- i))"
        by (simp add: str_int_def)
      with hd_not show ?thesis by blast
    qed
  next
    case pos_i: False
    show ?thesis
    proof (cases "j < 0")
      case True
      with pos_i eq have "str_nat (nat i) = CHR ''-'' # str_nat (nat (- j))"
        by (simp add: str_int_def)
      with hd_not show ?thesis by blast
    next
      case False
      with pos_i eq have "str_nat (nat i) = str_nat (nat j)"
        by (simp add: str_int_def)
      then have "nat i = nat j" by (rule str_nat_inj)
      with pos_i False show ?thesis by simp
    qed
  qed
qed

lemma str_int_not_None: "str_int i \<noteq> ''None''"
proof -
  have "CHR ''N'' \<notin> set (str_nat n)" for n
    using str_nat_digits [of n] by auto
  then have "str_nat n \<noteq> ''None''" for n
    by (metis list.set_intros(1))
  then show ?thesis by (auto simp: str_int_def)
qed

lemma str_opt_int_inj: "str_opt_int a = str_opt_int b \<Longrightarrow> a = b"
  using str_int_not_None
  by (cases a; cases b) (auto simp: str_opt_int_def dest: str_int_inj)

lemma str_opt_str_inj:
  "str_opt_str a = str_opt_str b \<Longrightarrow> a \<noteq> Some ''None'' \<Longrightarrow> b \<noteq> Some ''None'' \<Longrightarrow> a = b"
  by (cases a; cases b) (auto simp: str_opt_str_def)

lemma cooldown_key_separates:
  "ty' \<noteq> ty \<Longrightarrow> cooldown_key ty' cam loc \<noteq> cooldown_key ty cam loc"
  "cam' \<noteq> cam \<Longrightarrow> cooldown_key ty cam' loc \<noteq> cooldown_key ty cam loc"
  "loc' \<noteq> loc \<Longrightarrow> loc' \<noteq> Some ''None'' \<Longrightarrow> loc \<noteq> Some ''None'' \<Longrightarrow>
     cooldown_key ty cam loc' \<noteq> cooldown_key ty cam loc"
  by (auto simp: cooldown_key_def dest: str_opt_int_inj str_opt_str_inj)

section \<open>Alert creation and the cooldown\<close>

lemmas eval_defs = Let_def create_alert_def is_in_cooldown_def dict_get_def
  timedelta_seconds_def init_service_def motion_lobby_def no_delivery_def cooldown_key_def
  str_opt_int_def str_opt_str_def str_int_def str_nat.simps send_notifications_def
  set_confidence_def Alert_def svc_created_def acknowledge_alert_def resolve_alert_def
  total_seconds_def motion_gate_def cleanup_old_alerts_def alerts_to_remove_def
  dict_keys_def dict_del_def timedelta_days_def update_alert_def svc_acknowledged_def
  svc_resolved_def svc_two_def svc_pruned_def motion_lobby_6_def

text \<open>
  C1. The suppression key of \<^verbatim>\<open>create_alert\<close> is the alert type, the camera
  id and the location, printed and joined by underscores (a missing camera or location
  prints as \<^verbatim>\<open>None\<close>); a request that differs in the type alone, in the camera
  alone, or in the location alone (neither location being the text \<^verbatim>\<open>None\<close>)
  has another key. The key is in cooldown exactly when it carries a stamp less than
  the cooldown duration before the check. In cooldown the call returns no alert and
  leaves the service as it was. Otherwise it returns an alert with status
  \<^verbatim>\<open>active\<close>, stored under its id, and the only change to the cooldowns is one
  stamp of the key: from then on this key is in cooldown until the duration has passed
  since that stamp, so a later call with it creates an alert again once it has, and
  every other key is in cooldown exactly when it was before.
\<close>

theorem create_alert_cooldown:
  fixes svc :: "'j alert_service"
  shows
  "(let ty = new_alert_type r; cam = new_camera_id r; loc = new_location r;
        key = cooldown_key ty cam loc;
        out = create_alert cooldown t_check t_new t_stamp dlv svc r
    in key = ty @ ''_'' @ (case cam of None \<Rightarrow> ''None'' | Some c \<Rightarrow> str_int c) @ ''_'' @
               (case loc of None \<Rightarrow> ''None'' | Some l \<Rightarrow> l) \<and>
       (\<forall>ty'. ty' \<noteq> ty \<longrightarrow> cooldown_key ty' cam loc \<noteq> key) \<and>
       (\<forall>cam'. cam' \<noteq> cam \<longrightarrow> cooldown_key ty cam' loc \<noteq> key) \<and>
       (\<forall>loc'. loc' \<noteq> loc \<and> loc' \<noteq> Some ''None'' \<and> loc \<noteq> Some ''None'' \<longrightarrow>
                cooldown_key ty cam loc' \<noteq> key) \<and>
       (is_in_cooldown cooldown t_check svc key \<longleftrightarrow>
          (\<exists>last. dict_get (alert_cooldowns svc) key = Some last \<and>
                  t_check - last < cooldown * 1000000)) \<and>
       (is_in_cooldown cooldown t_check svc key \<longrightarrow> out = (None, svc)) \<and>
       (\<not> is_in_cooldown cooldown t_check svc key \<longrightarrow>
          (\<exists>a. fst out = Some a \<and> status a = ''active'' \<and>
               id' a = int (length (active_alerts svc)) + 1 \<and>
               active_alerts (snd out) = dict_set (active_alerts svc) (id' a) a \<and>
               dict_get (active_alerts (snd out)) (id' a) = Some a \<and>
               alert_cooldowns (snd out) = dict_set (alert_cooldowns svc) key t_stamp \<and>
               (\<forall>t k. is_in_cooldown cooldown t (snd out) k \<longleftrightarrow>
                        (if k = key then t - t_stamp < cooldown * 1000000
                         else is_in_cooldown cooldown t svc k)))))"
proof -
  have form: "cooldown_key ty cam loc =
      ty @ ''_'' @ (case cam of None \<Rightarrow> ''None'' | Some c \<Rightarrow> str_int c) @ ''_'' @
        (case loc of None \<Rightarrow> ''None'' | Some l \<Rightarrow> l)" for ty cam loc
    by (simp add: cooldown_key_def str_opt_int_def str_opt_str_def)
  have run: "(is_in_cooldown cooldown t_check svc key \<longleftrightarrow>
          (\<exists>last. dict_get (alert_cooldowns svc) key = Some last \<and>
                  t_check - last < cooldown * 1000000)) \<and>
       (is_in_cooldown cooldown t_check svc key \<longrightarrow>
          create_alert cooldown t_check t_new t_stamp dlv svc r = (None, svc)) \<and>
       (\<not> is_in_cooldown cooldown t_check svc key \<longrightarrow>
          (\<exists>a. fst (create_alert cooldown t_check t_new t_stamp dlv svc r) = Some a \<and>
               status a = ''active'' \<and>
               id' a = int (length (active_alerts svc)) + 1 \<and>
               active_alerts (snd (create_alert cooldown t_check t_new t_stamp dlv svc r)) =
                 dict_set (active_alerts svc) (id' a) a \<and>
               dict_get (active_alerts (snd (create_alert cooldown t_check t_new t_stamp dlv svc r)))
                 (id' a) = Some a \<and>
               alert_cooldowns (snd (create_alert cooldown t_check t_new t_stamp dlv svc r)) =
                 dict_set (alert_cooldowns svc) key t_stamp \<and>
               (\<forall>t k. is_in_cooldown cooldown t
                         (snd (create_alert cooldown t_check t_new t_stamp dlv svc r)) k \<longleftrightarrow>
                        (if k = key then t - t_stamp < cooldown * 1000000
                         else is_in_cooldown cooldown t svc k))))"
    if "key = cooldown_key (new_alert_type r) (new_camera_id r) (new_location r)" for key
    unfolding that
    by (simp add: Let_def create_alert_def is_in_cooldown_def dict_get_set
        timedelta_seconds_def send_notifications_def set_confidence_def Alert_def
        split: option.splits)
  show ?thesis
    unfolding Let_def
    using form cooldown_key_separates run [OF refl]
    by (intro conjI allI impI) (blast | simp)+
qed

text \<open>
  With a cooldown of 60 seconds: the first call creates an alert under the key
  \<^verbatim>\<open>motion_5_Lobby\<close>; a call 30 seconds later is suppressed and changes
  nothing, while the same call for camera 6 creates alert 2; a call for camera 5
  after 60 seconds creates an alert again.
\<close>

theorem create_alert_cooldown_witness:
  "fst (create_alert 60 0 0 0 no_delivery init_service motion_lobby) \<noteq> None \<and>
   cooldown_key ''motion'' (Some 5) (Some ''Lobby'') = ''motion_5_Lobby'' \<and>
   create_alert 60 30000000 30000000 30000000 no_delivery svc_created motion_lobby
     = (None, svc_created) \<and>
   map_option id'
     (fst (create_alert 60 30000000 30000000 30000000 no_delivery svc_created motion_lobby_6))
     = Some 2 \<and>
   map_option id'
     (fst (create_alert 60 60000000 60000000 60000000 no_delivery svc_created motion_lobby))
     = Some 2"
  using
    create_alert_cooldown [where cooldown = 60 and t_check = 0 and t_new = 0 and t_stamp = 0
      and dlv = no_delivery and svc = "init_service :: unit alert_service" and r = motion_lobby]
    create_alert_cooldown [where cooldown = 60 and t_check = 30000000 and t_new = 30000000
      and t_stamp = 30000000 and dlv = no_delivery and svc = svc_created and r = motion_lobby]
    create_alert_cooldown [where cooldown = 60 and t_check = 30000000 and t_new = 30000000
      and t_stamp = 30000000 and dlv = no_delivery and svc = svc_created
      and r = motion_lobby_6]
    create_alert_cooldown [where cooldown = 60 and t_check = 60000000 and t_new = 60000000
      and t_stamp = 60000000 and dlv = no_delivery and svc = svc_created and r = motion_lobby]
  by (simp add: eval_defs)

section \<open>The life cycle of an alert\<close>

lemma status_foldl_setattr:
  "status (foldl setattr a fs) = (case assigned_status fs of None \<Rightarrow> status a | Some v \<Rightarrow> v)"
proof (induction fs arbitrary: a)
  case Nil
  show ?case by simp
next
  case (Cons f fs)
  show ?case
    by (cases f) (simp_all add: Cons.IH split: option.splits)
qed

text \<open>
  C4, as the code has it. Acknowledging moves an active alert to acknowledged and
  leaves an acknowledged alert as it is; resolving moves an alert that is not resolved
  to resolved and leaves a resolved alert as it is; an update leaves the status as it
  is unless a status is among its arguments, and then sets it to that value whatever
  the status was.
\<close>

theorem status_transitions:
  fixes svc :: "'j alert_service"
  assumes "dict_get (active_alerts svc) i = Some a"
  shows
  "(status a = ''active'' \<longrightarrow>
      map_option status (dict_get (active_alerts (snd (acknowledge_alert now svc i uid))) i)
        = Some ''acknowledged'') \<and>
   (status a = ''acknowledged'' \<longrightarrow> acknowledge_alert now svc i uid = (True, svc)) \<and>
   (status a \<noteq> ''resolved'' \<longrightarrow>
      map_option status (dict_get (active_alerts (snd (resolve_alert now svc i uid))) i)
        = Some ''resolved'') \<and>
   (status a = ''resolved'' \<longrightarrow> resolve_alert now svc i uid = (True, svc)) \<and>
   map_option status (dict_get (active_alerts (snd (update_alert now svc i kwargs))) i)
     = Some (case assigned_status kwargs of None \<Rightarrow> status a | Some v \<Rightarrow> v)"
  using assms
  by (simp add: acknowledge_alert_def resolve_alert_def update_alert_def dict_get_set
      status_foldl_setattr)

theorem status_transitions_witness:
  "map_option status (dict_get (active_alerts (snd (acknowledge_alert 10000000 svc_created 1 7))) 1)
     = Some ''acknowledged'' \<and>
   acknowledge_alert 20000000 svc_acknowledged 1 7 = (True, svc_acknowledged) \<and>
   map_option status (dict_get (active_alerts (snd (resolve_alert 20000000 svc_acknowledged 1 7))) 1)
     = Some ''resolved'' \<and>
   resolve_alert 20000000 svc_resolved 1 7 = (True, svc_resolved) \<and>
   map_option status
     (dict_get (active_alerts (snd (update_alert 20000000 svc_resolved 1 [Severity ''high''])))
        1) = Some ''resolved''"
  using
    status_transitions [where svc = svc_created and i = 1 and now = 10000000 and uid = 7
      and a = "the (dict_get (active_alerts svc_created) 1)" and kwargs = "[]"]
    status_transitions [where svc = svc_acknowledged and i = 1 and now = 20000000 and uid = 7
      and a = "the (dict_get (active_alerts svc_acknowledged) 1)" and kwargs = "[]"]
    status_transitions [where svc = svc_resolved and i = 1 and now = 20000000 and uid = 7
      and a = "the (dict_get (active_alerts svc_resolved) 1)" and kwargs = "[Severity ''high'']"]
  by (simp add: eval_defs)

text \<open>
  C4 as stated fails: an update with \<^verbatim>\<open>status="active"\<close> takes the resolved
  alert 1 back to active.
\<close>

theorem status_backward_counterexample:
  "map_option status (dict_get (active_alerts svc_resolved) 1) = Some ''resolved'' \<and>
   fst (update_alert 20000000 svc_resolved 1 [Status ''active'']) = True \<and>
   map_option status
     (dict_get (active_alerts (snd (update_alert 20000000 svc_resolved 1 [Status ''active''])))
        1) = Some ''active''"
  by (simp add: eval_defs)

text \<open>
  C5 at a resolved alert. Alert 1 was resolved by user 7 with a response time of 10
  seconds. Acknowledging it another 10 seconds later as user 8 returns true, and the
  alert is then acknowledged, with user 8, a new acknowledgement time and a response
  time of 20 seconds.
\<close>

theorem acknowledge_resolved_alert:
  "map_option status (dict_get (active_alerts svc_resolved) 1) = Some ''resolved'' \<and>
   map_option user_id (dict_get (active_alerts svc_resolved) 1) = Some (Some 7) \<and>
   map_option acknowledged_at (dict_get (active_alerts svc_resolved) 1) = Some None \<and>
   map_option response_time (dict_get (active_alerts svc_resolved) 1) = Some (Some 10) \<and>
   fst (acknowledge_alert 20000000 svc_resolved 1 8) = True \<and>
   map_option status
     (dict_get (active_alerts (snd (acknowledge_alert 20000000 svc_resolved 1 8))) 1)
     = Some ''acknowledged'' \<and>
   map_option user_id
     (dict_get (active_alerts (snd (acknowledge_alert 20000000 svc_resolved 1 8))) 1)
     = Some (Some 8) \<and>
   map_option acknowledged_at
     (dict_get (active_alerts (snd (acknowledge_alert 20000000 svc_resolved 1 8))) 1)
     = Some (Some 20000000) \<and>
   map_option response_time
     (dict_get (active_alerts (snd (acknowledge_alert 20000000 svc_resolved 1 8))) 1)
     = Some (Some 20)"
  by (simp add: eval_defs)

text \<open>
  C6. Resolving a stored alert that is not yet resolved returns true; the alert is
  then resolved, \<open>resolved_at\<close> is the time of the call, and the response time is the
  seconds from the acknowledgement to the resolution when the alert had been
  acknowledged, from its creation otherwise.
\<close>

theorem resolve_response_time:
  fixes svc :: "'j alert_service"
  assumes "dict_get (active_alerts svc) i = Some a" and "status a \<noteq> ''resolved''"
  shows
  "\<exists>a'. resolve_alert now svc i uid =
           (True, svc\<lparr> active_alerts := dict_set (active_alerts svc) i a' \<rparr>) \<and>
        dict_get (active_alerts (snd (resolve_alert now svc i uid))) i = Some a' \<and>
        status a' = ''resolved'' \<and> resolved_at a' = Some now \<and>
        response_time a' =
          (case acknowledged_at a of
             Some t_ack \<Rightarrow> Some (real_of_int (now - t_ack) / 1000000)
           | None \<Rightarrow> Some (real_of_int (now - created_at a) / 1000000))"
  using assms
  by (simp add: resolve_alert_def dict_get_set total_seconds_def split: option.splits)

text \<open>
  Created at 0, acknowledged after 10 seconds, resolved after 25: the response time is
  15 seconds. Resolved after 25 seconds without acknowledgement: 25 seconds.
\<close>

theorem resolve_response_time_witness:
  "map_option response_time
     (dict_get (active_alerts (snd (resolve_alert 25000000 svc_acknowledged 1 7))) 1)
     = Some (Some 15) \<and>
   map_option response_time
     (dict_get (active_alerts (snd (resolve_alert 25000000 svc_created 1 7))) 1)
     = Some (Some 25)"
  using
    resolve_response_time [where svc = svc_acknowledged and i = 1 and now = 25000000
      and uid = 7 and a = "the (dict_get (active_alerts svc_acknowledged) 1)"]
    resolve_response_time [where svc = svc_created and i = 1 and now = 25000000 and uid = 7
      and a = "the (dict_get (active_alerts svc_created) 1)"]
  by (simp add: eval_defs)

section \<open>Alert ids\<close>

text \<open>
  C7 after a clean-up. Alerts 1 (lobby) and 2 (gate) are stored; alert 1 is resolved
  and pruned. The next alert created, for the lobby, gets id 2 again and takes the
  place of the gate alert, which is lost.
\<close>

theorem alert_id_reused:
  "dict_keys (active_alerts svc_two) = [1, 2] \<and>
   map_option location (dict_get (active_alerts svc_two) 2) = Some (Some ''Gate'') \<and>
   dict_keys (active_alerts svc_pruned) = [2] \<and>
   map_option id'
     (fst (create_alert 60 2678401000000 2678401000000 2678401000000 no_delivery svc_pruned
             motion_lobby)) = Some 2 \<and>
   dict_keys (active_alerts
     (snd (create_alert 60 2678401000000 2678401000000 2678401000000 no_delivery svc_pruned
             motion_lobby))) = [2] \<and>
   map_option location
     (dict_get (active_alerts
        (snd (create_alert 60 2678401000000 2678401000000 2678401000000 no_delivery svc_pruned
                motion_lobby))) 2) = Some (Some ''Lobby'')"
  by (simp add: eval_defs)

section \<open>Statistics\<close>

lemma sum_bump: "sum_list (dict_values (bump d k)) = sum_list (dict_values d) + 1"
  by (induction d) (auto simp: bump_def dict_values_def dict_get_def)

lemma sum_count_fold:
  "sum_list (dict_values (foldl (\<lambda>d x. bump d (f x)) d0 xs)) =
     sum_list (dict_values d0) + int (length xs)"
  by (induction xs arbitrary: d0) (simp_all add: sum_bump)

lemma sum_count_by: "sum_list (dict_values (count_by f xs)) = int (length xs)"
  using sum_count_fold [of f "[]" xs] by (simp add: count_by_def dict_values_def)

text \<open>
  C9. In the statistics of any service and any date range, given or defaulted, the
  counts by severity add up to the total number of alerts, and so do the counts by
  status.
\<close>

theorem statistics_consistency:
  "sum_list (dict_values (by_severity (get_alert_statistics now1 now2 svc start_date end_date))) =
     total_alerts (get_alert_statistics now1 now2 svc start_date end_date) \<and>
   total_alerts (get_alert_statistics now1 now2 svc start_date end_date) =
     sum_list (dict_values (by_status (get_alert_statistics now1 now2 svc start_date end_date)))"
  by (simp add: get_alert_statistics_def Let_def sum_count_by)

section \<open>Fusion of the modalities\<close>

lemma step_None:
  "face_step None st = Inr st" "fingerprint_step None st = Inr st" "iris_step None st = Inr st"
  by (simp_all add: face_step_def fingerprint_step_def iris_step_def)

lemma iris_step_eq: "iris_step r st = fingerprint_step r st"
  by (simp add: iris_step_def fingerprint_step_def)

lemma face_step_first: "face_step r ([], 0, None) = fingerprint_step r ([], 0, None)"
  by (simp add: face_step_def fingerprint_step_def split: option.splits)

lemma fusion_as_loop:
  "multi_modal_fusion f p i =
     (case fuse_steps (supplied f p i) ([], 0, None) of
        Inl e \<Rightarrow> Inl e | Inr st \<Rightarrow> Inr (final_result st))"
  by (cases f; cases p; cases i)
     (simp_all add: multi_modal_fusion_def supplied_def step_None iris_step_eq face_step_first
        split: sum.splits)

lemma step_failed:
  "\<not> success r \<Longrightarrow> fingerprint_step (Some r) (res, tot, au) = Inr (res @ [r], tot, au)"
  by (simp add: fingerprint_step_def)

lemma step_succeeded:
  "success r \<Longrightarrow> confidence r = Some c \<Longrightarrow> auth_user_id r = Some u \<Longrightarrow>
   fingerprint_step (Some r) (res, tot, au) =
     (if au = None then Inr (res @ [r], round_double (tot + c), u)
      else if au \<noteq> u then Inl mismatch_error
      else Inr (res @ [r], round_double (tot + c), au))"
  by (simp add: fingerprint_step_def)

lemma fuse_steps_agree:
  assumes "\<forall>r \<in> set rs. success r \<longrightarrow> confidence r \<noteq> None \<and> auth_user_id r = Some x"
    and "au = None \<or> au = x"
  shows "fuse_steps rs (res, tot, au) =
           Inr (res @ rs, float_sum tot (map conf_of (filter success rs)),
                if filter success rs = [] then au else x)"
  using assms
proof (induction rs arbitrary: res tot au)
  case Nil
  show ?case by (simp add: float_sum_def)
next
  case (Cons r rs)
  show ?case
  proof (cases "success r")
    case False
    with Cons.prems Cons.IH [of au "res @ [r]" tot] show ?thesis
      by (simp add: step_failed)
  next
    case True
    with Cons.prems obtain c where c: "confidence r = Some c" and x: "auth_user_id r = Some x"
      by auto
    have "fingerprint_step (Some r) (res, tot, au) = Inr (res @ [r], round_double (tot + c), x)"
      using True c x Cons.prems(2) by (auto simp: step_succeeded)
    moreover have "fuse_steps rs (res @ [r], round_double (tot + c), x) =
        Inr ((res @ [r]) @ rs,
             float_sum (round_double (tot + c)) (map conf_of (filter success rs)),
             if filter success rs = [] then x else x)"
      using Cons.prems(1) by (intro Cons.IH) auto
    moreover have "conf_of r = c"
      using c by (simp add: conf_of_def)
    ultimately show ?thesis
      using True by (simp add: float_sum_def)
  qed
qed

lemma fuse_steps_differs:
  assumes "\<forall>r \<in> set rs. success r \<longrightarrow> confidence r \<noteq> None \<and> auth_user_id r \<noteq> None"
    and "r1 \<in> set rs" and "success r1" and "auth_user_id r1 = Some (Some u1)"
    and "au = Some v" and "v \<noteq> u1"
  shows "fuse_steps rs (res, tot, au) = Inl mismatch_error"
  using assms
proof (induction rs arbitrary: res tot)
  case Nil
  then show ?case by simp
next
  case (Cons r rs)
  show ?case
  proof (cases "success r")
    case False
    then have "r1 \<in> set rs" using Cons.prems by auto
    with False Cons show ?thesis by (simp add: step_failed)
  next
    case True
    with Cons.prems obtain c w where c: "confidence r = Some c" and w: "auth_user_id r = Some w"
      by auto
    show ?thesis
    proof (cases "w = au")
      case False
      with True c w Cons.prems(5) show ?thesis by (simp add: step_succeeded)
    next
      case same: True
      then have "r \<noteq> r1" using Cons.prems w by auto
      then have "r1 \<in> set rs" using Cons.prems by auto
      moreover have "fingerprint_step (Some r) (res, tot, au) =
          Inr (res @ [r], round_double (tot + c), au)"
        using True c w same Cons.prems(5) by (simp add: step_succeeded)
      ultimately show ?thesis using Cons by simp
    qed
  qed
qed

lemma fuse_steps_mismatch:
  assumes "\<forall>r \<in> set rs. success r \<longrightarrow> confidence r \<noteq> None \<and> auth_user_id r \<noteq> None"
    and "r1 \<in> set rs" and "success r1" and "auth_user_id r1 = Some (Some u1)"
    and "r2 \<in> set rs" and "success r2" and "auth_user_id r2 = Some (Some u2)"
    and "u1 \<noteq> u2"
  shows "fuse_steps rs (res, tot, None) = Inl mismatch_error"
  using assms
proof (induction rs arbitrary: res tot)
  case Nil
  then show ?case by simp
next
  case (Cons r rs)
  show ?case
  proof (cases "success r")
    case False
    then have "r1 \<in> set rs" "r2 \<in> set rs" using Cons.prems by auto
    with False Cons show ?thesis by (simp add: step_failed)
  next
    case True
    with Cons.prems obtain c w where c: "confidence r = Some c" and w: "auth_user_id r = Some w"
      by auto
    have step: "fingerprint_step (Some r) (res, tot, None) =
        Inr (res @ [r], round_double (tot + c), w)"
      using True c w by (simp add: step_succeeded)
    have rest: "\<forall>r \<in> set rs. success r \<longrightarrow> confidence r \<noteq> None \<and> auth_user_id r \<noteq> None"
      using Cons.prems(1) by simp
    show ?thesis
    proof (cases w)
      case None
      then have "r1 \<in> set rs" "r2 \<in> set rs" using Cons.prems w by auto
      with step None Cons show ?thesis by simp
    next
      case (Some v)
      consider "v \<noteq> u1" | "v \<noteq> u2" using Cons.prems(8) by auto
      then show ?thesis
      proof cases
        case 1
        then have "r1 \<in> set rs" using Some w Cons.prems by auto
        then have "fuse_steps rs (res @ [r], round_double (tot + c), Some v) = Inl mismatch_error"
          using rest Cons.prems(3,4) 1
          by (intro fuse_steps_differs [where ?r1.0 = r1 and ?u1.0 = u1 and v = v]) auto
        with step Some show ?thesis by simp
      next
        case 2
        then have "r2 \<in> set rs" using Some w Cons.prems by auto
        then have "fuse_steps rs (res @ [r], round_double (tot + c), Some v) = Inl mismatch_error"
          using rest Cons.prems(6,7) 2
          by (intro fuse_steps_differs [where ?r1.0 = r2 and ?u1.0 = u2 and v = v]) auto
        with step Some show ?thesis by simp
      qed
    qed
  qed
qed

lemma fusion_mismatch:
  assumes "r1 \<in> set (supplied f p i)" and "r2 \<in> set (supplied f p i)"
    and "success r1" and "success r2"
    and "auth_user_id r1 = Some (Some u1)" and "auth_user_id r2 = Some (Some u2)"
    and "u1 \<noteq> u2"
    and "\<forall>r \<in> set (supplied f p i). success r \<longrightarrow> confidence r \<noteq> None \<and> auth_user_id r \<noteq> None"
  shows "multi_modal_fusion f p i = Inl mismatch_error"
  using fuse_steps_mismatch [OF assms(8) assms(1) assms(3) assms(5) assms(2) assms(4) assms(6) assms(7)]
  by (simp add: fusion_as_loop)

text \<open>
  C2, as the code has it. When all successful results among those supplied carry the
  same user id (and each has the keys \<^verbatim>\<open>confidence\<close> and
  \<^verbatim>\<open>user_id\<close>), the fusion returns a result, which reports success exactly
  when at least one modality succeeded, the float sum of the confidences of the
  successful modalities divided by the number of all supplied modalities is at least
  0.7, and an identity was resolved. The identity is that of the first successful
  result.
\<close>

theorem fusion_success_iff:
  assumes "\<forall>r1 \<in> set (supplied f p i). \<forall>r2 \<in> set (supplied f p i).
             success r1 \<and> success r2 \<longrightarrow> auth_user_id r1 = auth_user_id r2"
    and "\<forall>r \<in> set (supplied f p i).
           success r \<longrightarrow> confidence r \<noteq> None \<and> auth_user_id r \<noteq> None"
  shows "\<exists>fu. multi_modal_fusion f p i = Inr fu \<and>
           (fused_success fu \<longleftrightarrow>
              filter success (supplied f p i) \<noteq> [] \<and>
              round_double
                (float_sum 0 (map conf_of (filter success (supplied f p i)))
                   / real (length (supplied f p i))) \<ge> round_double 0.7 \<and>
              fused_user_id fu \<noteq> None) \<and>
           fused_user_id fu =
             (case filter success (supplied f p i) of
                [] \<Rightarrow> None
              | r # _ \<Rightarrow> (case auth_user_id r of None \<Rightarrow> None | Some u \<Rightarrow> u)) \<and>
           detailed_results fu = supplied f p i"
proof -
  define rs where "rs = supplied f p i"
  define x where "x = (case filter success rs of
                         [] \<Rightarrow> None
                       | r # _ \<Rightarrow> (case auth_user_id r of None \<Rightarrow> None | Some u \<Rightarrow> u))"
  have common: "auth_user_id r = Some x" if "r \<in> set rs" and "success r" for r
  proof -
    from that have "r \<in> set (filter success rs)" by simp
    then obtain r0 rest where r0: "filter success rs = r0 # rest"
      by (cases "filter success rs") auto
    then have "r0 \<in> set (filter success rs)" by simp
    then have in0: "r0 \<in> set rs" "success r0" by auto
    with that assms(1) have same: "auth_user_id r = auth_user_id r0"
      unfolding rs_def by blast
    from in0 assms(2) obtain u where "auth_user_id r0 = Some u"
      unfolding rs_def by auto
    with r0 same show ?thesis by (simp add: x_def)
  qed
  have "\<forall>r \<in> set rs. success r \<longrightarrow> confidence r \<noteq> None \<and> auth_user_id r = Some x"
    using assms(2) common unfolding rs_def by blast
  then have run: "fuse_steps rs ([], 0, None) =
      Inr ([] @ rs, float_sum 0 (map conf_of (filter success rs)),
           if filter success rs = [] then None else x)"
    by (intro fuse_steps_agree) auto
  have x_empty: "filter success rs = [] \<Longrightarrow> x = None"
    by (simp add: x_def)
  show ?thesis
    unfolding rs_def [symmetric] x_def [symmetric]
    using run x_empty
    by (auto simp: fusion_as_loop rs_def [symmetric] final_result_def Let_def)
qed

text \<open>
  Two supplied modalities, both successful for user 1: with confidences 0.9 and 0.3
  the fusion fails, with 0.9 and 0.8 it succeeds with user 1. Three supplied
  modalities, all successful with confidence 0.7: the float sum is
  2.0999999999999996, a third of it is below 0.7, and the fusion fails.
\<close>

theorem fusion_success_iff_witness:
  "map_sum id fused_success
     (multi_modal_fusion (Some (matched 1 (round_double 0.9)))
        (Some (matched 1 (round_double 0.3))) None) = Inr False \<and>
   map_sum id (\<lambda>fu. (fused_success fu, fused_user_id fu))
     (multi_modal_fusion (Some (matched 1 (round_double 0.9)))
        (Some (matched 1 (round_double 0.8))) None) = Inr (True, Some 1) \<and>
   map_sum id fused_success
     (multi_modal_fusion (Some (matched 1 (round_double 0.7)))
        (Some (matched 1 (round_double 0.7))) (Some (matched 1 (round_double 0.7))))
     = Inr False"
proof -
  let ?a = "Some (matched 1 (round_double 0.9))"
  let ?b = "Some (matched 1 (round_double 0.3))"
  let ?c = "Some (matched 1 (round_double 0.8))"
  let ?d = "Some (matched 1 (round_double 0.7))"
  have same: "\<forall>r1 \<in> set (supplied f p i). \<forall>r2 \<in> set (supplied f p i).
             success r1 \<and> success r2 \<longrightarrow> auth_user_id r1 = auth_user_id r2"
    and keys: "\<forall>r \<in> set (supplied f p i).
           success r \<longrightarrow> confidence r \<noteq> None \<and> auth_user_id r \<noteq> None"
    if "f \<in> {?a, ?d}" and "p \<in> {?b, ?c, ?d}" and "i \<in> {None, ?d}" for f p i
    using that by (auto simp: supplied_def matched_def simp del: not_None_eq)
  have low: "round_double
      (float_sum 0 (map conf_of (filter success (supplied ?a ?b None)))
         / real (length (supplied ?a ?b None))) < round_double 0.7"
    by code_simp
  have high: "round_double
      (float_sum 0 (map conf_of (filter success (supplied ?a ?c None)))
         / real (length (supplied ?a ?c None))) \<ge> round_double 0.7"
    by code_simp
  have edge: "round_double
      (float_sum 0 (map conf_of (filter success (supplied ?d ?d ?d)))
         / real (length (supplied ?d ?d ?d))) < round_double 0.7"
    by code_simp
  have first: "filter success (supplied ?a ?c None) = matched 1 (round_double 0.9) # [matched 1 (round_double 0.8)]"
    by (simp add: supplied_def matched_def)
  from fusion_success_iff [OF same keys, of ?a ?b None] low
  have 1: "map_sum id fused_success (multi_modal_fusion ?a ?b None) = Inr False"
    by auto
  from fusion_success_iff [OF same keys, of ?a ?c None] high first
  have 2: "map_sum id (\<lambda>fu. (fused_success fu, fused_user_id fu))
             (multi_modal_fusion ?a ?c None) = Inr (True, Some 1)"
    by (auto simp: matched_def)
  from fusion_success_iff [OF same keys, of ?d ?d ?d] edge
  have 3: "map_sum id fused_success (multi_modal_fusion ?d ?d ?d) = Inr False"
    by auto
  from 1 2 3 show ?thesis by simp
qed

text \<open>
  C2 as stated fails. The face of user 1 is recognised with confidence 0.875 and the
  fingerprint is not recognised: one modality succeeded, the mean confidence over the
  successful modalities is 0.875, the identity is resolved and there is no mismatch,
  yet the fusion reports failure with confidence 0.4375.
\<close>

theorem fusion_mean_counterexample:
  "multi_modal_authentication demo_faces (round_double 0.6) str_nat id True demo_biometrics
     (Some 1) (Some 7) None None =
     Inr \<lparr> fused_success = False, fused_user_id = Some 1, fused_confidence = 0.4375,
           successful_modalities = 1, total_modalities = 2,
           detailed_results =
             [\<lparr> success = True, auth_user_id = Some (Some 1), confidence = Some 0.875,
                 distance = None, auth_method = Some ''face_recognition'',
                 auth_error = None \<rparr>,
              \<lparr> success = False, auth_user_id = None, confidence = Some 0,
                 distance = None, auth_method = None,
                 auth_error = Some ''Fingerprint not recognized'' \<rparr>] \<rparr> \<and>
   spec_fusion_success
     [\<lparr> success = True, auth_user_id = Some (Some 1), confidence = Some 0.875,
         distance = None, auth_method = Some ''face_recognition'', auth_error = None \<rparr>,
      \<lparr> success = False, auth_user_id = None, confidence = Some 0,
         distance = None, auth_method = None,
         auth_error = Some ''Fingerprint not recognized'' \<rparr>] (Some 1)"
  by code_simp

lemma authenticate_face_success:
  "success (authenticate_face lib tol cache img uid) \<Longrightarrow>
     confidence (authenticate_face lib tol cache img uid) \<noteq> None \<and>
     (\<exists>u. auth_user_id (authenticate_face lib tol cache img uid) = Some (Some u))"
  by (auto simp: authenticate_face_def Let_def split: list.splits option.splits prod.splits if_splits
      simp del: not_None_eq)

lemma authenticate_fingerprint_success:
  "success (authenticate_fingerprint sha cache d uid) \<Longrightarrow>
     confidence (authenticate_fingerprint sha cache d uid) \<noteq> None \<and>
     (\<exists>u. auth_user_id (authenticate_fingerprint sha cache d uid) = Some (Some u))"
  by (auto simp: authenticate_fingerprint_def Let_def split: option.splits prod.splits if_splits
      simp del: not_None_eq)

lemma authenticate_iris_success:
  "success (authenticate_iris sha tob cache img uid) \<Longrightarrow>
     confidence (authenticate_iris sha tob cache img uid) \<noteq> None \<and>
     (\<exists>u. auth_user_id (authenticate_iris sha tob cache img uid) = Some (Some u))"
  by (auto simp: authenticate_iris_def Let_def split: option.splits prod.splits if_splits
      simp del: not_None_eq)

lemma supplied_mem: "r \<in> set (supplied a b c) \<longleftrightarrow> a = Some r \<or> b = Some r \<or> c = Some r"
  by (cases a; cases b; cases c) (auto simp: supplied_def)

lemma attempted_success:
  assumes "r \<in> set (attempted lib tol sha tob en svc fi fd ii uid)" and "success r"
  shows "confidence r \<noteq> None \<and> (\<exists>u. auth_user_id r = Some (Some u))"
proof -
  from assms(1) consider
      i where "r = authenticate_face lib tol (face_encodings_cache svc) i uid"
    | b where "r = authenticate_fingerprint sha (fingerprint_templates_cache svc) b uid"
    | i where "r = authenticate_iris sha tob (iris_templates_cache svc) i uid"
    by (auto simp: attempted_def supplied_mem split: if_splits)
  then show ?thesis
  proof cases
    case 1
    with assms(2) authenticate_face_success [of lib tol "face_encodings_cache svc" i uid]
    show ?thesis by (simp del: not_None_eq)
  next
    case 2
    with assms(2)
      authenticate_fingerprint_success [of sha "fingerprint_templates_cache svc" b uid]
    show ?thesis by (simp del: not_None_eq)
  next
    case 3
    with assms(2) authenticate_iris_success [of sha tob "iris_templates_cache svc" i uid]
    show ?thesis by (simp del: not_None_eq)
  qed
qed

text \<open>
  C3. When two of the results that a multi-modal authentication obtains are successful
  and carry different user ids, the method returns the mismatch error, whatever the
  confidences are.
\<close>

theorem multi_modal_identity_mismatch:
  assumes "r1 \<in> set (attempted lib tol sha tob en svc fi fd ii uid)"
    and "r2 \<in> set (attempted lib tol sha tob en svc fi fd ii uid)"
    and "success r1" and "success r2" and "auth_user_id r1 \<noteq> auth_user_id r2"
  shows "multi_modal_authentication lib tol sha tob en svc fi fd ii uid = Inl mismatch_error"
proof -
  from attempted_success [OF assms(1,3)] obtain u1 where u1: "auth_user_id r1 = Some (Some u1)"
    by auto
  from attempted_success [OF assms(2,4)] obtain u2 where u2: "auth_user_id r2 = Some (Some u2)"
    by auto
  have conf: "\<forall>r \<in> set (attempted lib tol sha tob en svc fi fd ii uid).
                success r \<longrightarrow> confidence r \<noteq> None \<and> auth_user_id r \<noteq> None"
  proof (intro ballI impI)
    fix r
    assume "r \<in> set (attempted lib tol sha tob en svc fi fd ii uid)" and "success r"
    from attempted_success [OF this] show "confidence r \<noteq> None \<and> auth_user_id r \<noteq> None"
      by auto
  qed
  from u1 u2 assms(5) have "u1 \<noteq> u2" by simp
  with assms(1-4) u1 u2 have
    "multi_modal_fusion
       (map_option (\<lambda>i. authenticate_face lib tol (face_encodings_cache svc) i uid) fi)
       (map_option (\<lambda>b. authenticate_fingerprint sha (fingerprint_templates_cache svc) b uid)
          fd)
       (if en
        then map_option (\<lambda>i. authenticate_iris sha tob (iris_templates_cache svc) i uid) ii
        else None) = Inl mismatch_error"
    using conf unfolding attempted_def
    by (intro fusion_mismatch [where ?r1.0 = r1 and ?r2.0 = r2 and ?u1.0 = u1
          and ?u2.0 = u2]) assumption+
  then show ?thesis
    by (simp add: multi_modal_authentication_def)
qed

text \<open>
  The face is that of user 1, the fingerprint that of user 2: the method returns the
  mismatch error.
\<close>

theorem multi_modal_identity_mismatch_witness:
  "attempted demo_faces (round_double 0.6) str_nat id True demo_biometrics
     (Some 1) (Some 22) None None =
     [\<lparr> success = True, auth_user_id = Some (Some 1), confidence = Some 0.875,
        distance = None, auth_method = Some ''face_recognition'', auth_error = None \<rparr>,
      \<lparr> success = True, auth_user_id = Some (Some 2), confidence = Some 1, distance = None,
        auth_method = Some ''fingerprint'', auth_error = None \<rparr>] \<and>
   multi_modal_authentication demo_faces (round_double 0.6) str_nat id True demo_biometrics
     (Some 1) (Some 22) None None = Inl mismatch_error"
proof -
  have a: "attempted demo_faces (round_double 0.6) str_nat id True demo_biometrics
     (Some 1) (Some 22) None None =
     [\<lparr> success = True, auth_user_id = Some (Some 1), confidence = Some 0.875,
        distance = None, auth_method = Some ''face_recognition'', auth_error = None \<rparr>,
      \<lparr> success = True, auth_user_id = Some (Some 2), confidence = Some 1, distance = None,
        auth_method = Some ''fingerprint'', auth_error = None \<rparr>]"
    by code_simp
  show ?thesis
    using a
      multi_modal_identity_mismatch [where lib = demo_faces and tol = "round_double 0.6"
        and sha = str_nat
        and tob = id and en = True and svc = demo_biometrics and fi = "Some 1"
        and fd = "Some 22" and ii = None and uid = None
        and ?r1.0 = "\<lparr> success = True, auth_user_id = Some (Some 1), confidence = Some 0.875,
                        distance = None, auth_method = Some ''face_recognition'',
                        auth_error = None \<rparr>"
        and ?r2.0 = "\<lparr> success = True, auth_user_id = Some (Some 2), confidence = Some 1,
                        distance = None, auth_method = Some ''fingerprint'',
                        auth_error = None \<rparr>"]
    by simp
qed

section \<open>Verification against a requested user\<close>




section \<open>Liveness\<close>

text \<open>
  C8 at an iris sample. With a liveness check that rejects every image, the face
  endpoint answers with the liveness failure, while the iris endpoint matches the
  image and authenticates user 2, and the iris registration stores the template.
\<close>

theorem iris_without_liveness:
  "is_live (never_live 22) = False \<and> is_live (never_live 33) = False \<and>
   api_authenticate_face never_live demo_faces (round_double 0.6) demo_biometrics (png 1) None =
     Http_200 \<lparr> resp_success = False, resp_user_id = None, resp_confidence = 0,
                resp_method = ''face'', resp_error = Some ''Liveness check failed'' \<rparr> \<and>
   api_authenticate_iris str_nat id demo_biometrics (png 22) None =
     Http_200 \<lparr> resp_success = True, resp_user_id = Some 2, resp_confidence = 1,
                resp_method = ''iris'', resp_error = None \<rparr> \<and>
   api_register_iris str_nat id demo_biometrics \<lparr> is_admin = False, cu_user_id = 3 \<rparr> 3 (png 33) =
     (Http_200 \<lparr> rr_success = True, rr_message = ''Iris registered successfully'',
                 rr_template_id = Some ''3'', rr_quality_score = Some 0.98, rr_error = None \<rparr>,
      demo_biometrics\<lparr> iris_templates_cache := [(2, ''22''), (3, ''33'')] \<rparr>)"
  by (simp add: api_authenticate_face_def api_authenticate_iris_def api_register_iris_def
      register_iris_def never_live_def png_def startswith_def authenticate_iris_def
      verify_against_def demo_biometrics_def str_nat.simps str_int_def Let_def)

end
